theory Spec2Isabelle
  imports Complex_Main "HOL-Library.Word"
begin

unbundle bit_operations_syntax

section \<open>Alex: the device-side sketch (Alex.ino and its companion files)\<close>

text \<open>
  The sketch runs on an ATmega2560, where \<^verbatim>\<open>unsigned long\<close> and \<^verbatim>\<open>long\<close> have 32 bits:
  every counter is a \<open>32 word\<close>, \<open>+\<close> wraps and \<open><\<close> compares unsigned.
  A C \<^verbatim>\<open>float\<close> is modelled by the real number it denotes.
\<close>

subsection \<open>Enumerations of constants.h\<close>

text \<open>
  constants.h and packet.h are not among the source files. The enumerations are
  datatypes with the names the code uses; their numbering on the wire is a parameter
  (record \<open>platform\<close> below).
\<close>

datatype TPacketType =
  PACKET_TYPE_COMMAND | PACKET_TYPE_RESPONSE | PACKET_TYPE_ERROR
  | PACKET_TYPE_MESSAGE | PACKET_TYPE_HELLO

datatype TResponseType =
  RESP_OK | RESP_STATUS | RESP_COLOUR | RESP_ULTRASONIC
  | RESP_BAD_PACKET | RESP_BAD_CHECKSUM | RESP_BAD_COMMAND | RESP_BAD_RESPONSE

datatype TCommandType =
  COMMAND_FORWARD | COMMAND_REVERSE | COMMAND_TURN_RIGHT | COMMAND_TURN_LEFT
  | COMMAND_STOP | COMMAND_GET_STATS | COMMAND_CLEAR_STATS | COMMAND_GRAB
  | COMMAND_COLOUR | COMMAND_ULTRASONIC | COMMAND_RELEASE | COMMAND_MED

datatype TResult = PACKET_OK | PACKET_BAD | PACKET_CHECKSUM_BAD | PACKET_INCOMPLETE

datatype TDirection = STOP | FORWARD | BACKWARD | LEFT | RIGHT

subsection \<open>Packets, events, state\<close>

text \<open>
  \<^verbatim>\<open>TPacket\<close>: the type byte, the command byte and the sixteen 32-bit parameter slots
  (an array, indexed by slot number). The text buffer \<^verbatim>\<open>data\<close> is written only by
  \<^verbatim>\<open>sendMessage\<close>, which no live code calls, and is left out.
\<close>

record TPacket =
  packetType :: "8 word"
  command :: "8 word"
  params :: "nat \<Rightarrow> 32 word"

text \<open>
  What the sketch does to the outside world, in the order it does it: a packet handed to
  \<^verbatim>\<open>sendResponse\<close> (serialised and written to the serial port), a call of
  \<^verbatim>\<open>move(speed, direction)\<close>, a \<^verbatim>\<open>servoN.write(angle)\<close>, a call of
  \<^verbatim>\<open>readUltrasonic()\<close> and a call of \<^verbatim>\<open>readFrequency(s2, s3)\<close>. Time is not modelled:
  the calls of \<^verbatim>\<open>delay\<close> leave no trace.
\<close>

datatype event =
  Sent TPacket
  | Move real TDirection
  | ServoWrite nat nat
  | ReadUltrasonic
  | ReadFrequency bool bool

text \<open>
  What the source files leave open:
  the numbering of the enumerations (constants.h);
  the contents of an automatic \<^verbatim>\<open>TPacket\<close> before any field is assigned (\<open>uninit\<close>;
  no theorem depends on what it holds);
  the conversion \<^verbatim>\<open>(double) command->params[k]\<close> (packet.h fixes the slot's signedness);
  and three floating-point computations whose results are taken as they come:
  \<^verbatim>\<open>computeDeltaTicks(ang)\<close>,
  \<^verbatim>\<open>(unsigned long) ((float) ticks / COUNTS_PER_REV * WHEEL_CIRC)\<close> of the left ISR, and
  the index \<^verbatim>\<open>min_index\<close> that \<^verbatim>\<open>evaluateColour(r, g, b, ...)\<close> stores in slot 3.
\<close>

record platform =
  ptype :: "TPacketType \<Rightarrow> 8 word"
  cmd :: "TCommandType \<Rightarrow> 8 word"
  resp :: "TResponseType \<Rightarrow> 8 word"
  uninit :: TPacket
  float_of_param :: "32 word \<Rightarrow> real"
  computeDeltaTicks :: "real \<Rightarrow> 32 word"
  ticks_to_cm :: "32 word \<Rightarrow> 32 word"
  min_index :: "32 word \<Rightarrow> 32 word \<Rightarrow> 32 word \<Rightarrow> 32 word"

text \<open>The global variables of Alex.ino, and the log of events so far.\<close>

record alex =
  dir :: TDirection
  leftForwardTicks :: "32 word"
  rightForwardTicks :: "32 word"
  rightReverseTicks :: "32 word"
  leftReverseTicks :: "32 word"
  rightForwardTicksTurns :: "32 word"
  leftForwardTicksTurns :: "32 word"
  rightReverseTicksTurns :: "32 word"
  leftReverseTicksTurns :: "32 word"
  leftRevs :: "32 word"
  rightRevs :: "32 word"
  forwardDist :: "32 word"
  reverseDist :: "32 word"
  deltaDist :: "32 word"
  newDist :: "32 word"
  deltaTicks :: "32 word"
  targetTicks :: "32 word"
  trace :: "event list"

text \<open>
  What one pass of the main loop reads from the hardware: the result of
  \<^verbatim>\<open>readPacket\<close> with the packet it filled in, the distance \<^verbatim>\<open>readUltrasonic()\<close>
  would return, and the pulse length \<^verbatim>\<open>readFrequency(s2, s3)\<close> would return.
\<close>

record input =
  result :: TResult
  packet :: TPacket
  ultrasonic :: "32 word"
  frequency :: "bool \<Rightarrow> bool \<Rightarrow> 32 word"

subsection \<open>Sending packets\<close>

definition sendResponse :: "TPacket \<Rightarrow> alex \<Rightarrow> alex" where
  "sendResponse p s = s\<lparr>trace := trace s @ [Sent p]\<rparr>"

definition okPacket :: "platform \<Rightarrow> TPacket" where
  "okPacket E = (uninit E)\<lparr>packetType := ptype E PACKET_TYPE_RESPONSE, command := resp E RESP_OK\<rparr>"

definition errorPacket :: "platform \<Rightarrow> TResponseType \<Rightarrow> TPacket" where
  "errorPacket E r = (uninit E)\<lparr>packetType := ptype E PACKET_TYPE_ERROR, command := resp E r\<rparr>"

definition sendOK :: "platform \<Rightarrow> alex \<Rightarrow> alex" where
  "sendOK E s = sendResponse (okPacket E) s"

definition sendBadPacket :: "platform \<Rightarrow> alex \<Rightarrow> alex" where
  "sendBadPacket E s = sendResponse (errorPacket E RESP_BAD_PACKET) s"

definition sendBadChecksum :: "platform \<Rightarrow> alex \<Rightarrow> alex" where
  "sendBadChecksum E s = sendResponse (errorPacket E RESP_BAD_CHECKSUM) s"

definition sendBadCommand :: "platform \<Rightarrow> alex \<Rightarrow> alex" where
  "sendBadCommand E s = sendResponse (errorPacket E RESP_BAD_COMMAND) s"

definition sendBadResponse :: "platform \<Rightarrow> alex \<Rightarrow> alex" where
  "sendBadResponse E s = sendResponse (errorPacket E RESP_BAD_RESPONSE) s"

definition statusPacket :: "platform \<Rightarrow> alex \<Rightarrow> TPacket" where
  "statusPacket E s =
     (uninit E)\<lparr>packetType := ptype E PACKET_TYPE_RESPONSE, command := resp E RESP_STATUS,
       params := (params (uninit E))
         (0 := leftForwardTicks s, 1 := rightForwardTicks s,
          2 := leftReverseTicks s, 3 := rightReverseTicks s,
          4 := leftForwardTicksTurns s, 5 := rightForwardTicksTurns s,
          6 := leftReverseTicksTurns s, 7 := rightReverseTicksTurns s,
          8 := forwardDist s, 9 := reverseDist s)\<rparr>"

definition sendStatus :: "platform \<Rightarrow> alex \<Rightarrow> alex" where
  "sendStatus E s = sendResponse (statusPacket E s) s"

definition sendDist :: "platform \<Rightarrow> 32 word \<Rightarrow> alex \<Rightarrow> alex" where
  "sendDist E distance s =
     sendResponse ((uninit E)\<lparr>packetType := ptype E PACKET_TYPE_RESPONSE,
       command := resp E RESP_ULTRASONIC,
       params := (params (uninit E))(0 := distance)\<rparr>) s"

subsection \<open>Sensors and the claw\<close>

definition readUltrasonic :: "input \<Rightarrow> alex \<Rightarrow> 32 word \<times> alex" where
  "readUltrasonic i s = (ultrasonic i, s\<lparr>trace := trace s @ [ReadUltrasonic]\<rparr>)"

definition readFrequency :: "input \<Rightarrow> bool \<Rightarrow> bool \<Rightarrow> alex \<Rightarrow> 32 word \<times> alex" where
  "readFrequency i s2 s3 s = (frequency i s2 s3, s\<lparr>trace := trace s @ [ReadFrequency s2 s3]\<rparr>)"

definition readColour :: "platform \<Rightarrow> input \<Rightarrow> alex \<Rightarrow> alex" where
  "readColour E i s =
     (let (r, s1) = readFrequency i False False s;
          (g, s2) = readFrequency i True True s1;
          (b, s3) = readFrequency i False True s2;
          colour = (uninit E)\<lparr>packetType := ptype E PACKET_TYPE_RESPONSE,
            command := resp E RESP_COLOUR,
            params := (params (uninit E))(0 := r, 1 := g, 2 := b, 3 := min_index E r g b)\<rparr>
      in sendResponse colour s3)"

definition servo_write :: "nat \<Rightarrow> nat \<Rightarrow> alex \<Rightarrow> alex" where
  "servo_write n angle s = s\<lparr>trace := trace s @ [ServoWrite n angle]\<rparr>"

definition setupClaw :: "alex \<Rightarrow> alex" where
  "setupClaw s = servo_write 2 60 (servo_write 1 0 (servo_write 3 10 s))"

definition grab :: "alex \<Rightarrow> alex" where
  "grab s = servo_write 2 20 (servo_write 1 40 s)"

definition release_arm :: "alex \<Rightarrow> alex" where
  "release_arm s = servo_write 2 75 (servo_write 1 0 s)"

definition medpack :: "alex \<Rightarrow> alex" where
  "medpack s = servo_write 3 90 s"

subsection \<open>Encoder interrupts\<close>

text \<open>
  \<^verbatim>\<open>leftISR\<close>: every case of the switch ends in \<^verbatim>\<open>break\<close>.
  \<^verbatim>\<open>rightISR\<close>: no case does, so control falls from the matching label through every
  later one.
\<close>

definition leftISR :: "platform \<Rightarrow> alex \<Rightarrow> alex" where
  "leftISR E s =
     (let s1 = (case dir s of
                  FORWARD \<Rightarrow> s\<lparr>leftForwardTicks := leftForwardTicks s + 1\<rparr>
                | BACKWARD \<Rightarrow> s\<lparr>leftReverseTicks := leftReverseTicks s + 1\<rparr>
                | LEFT \<Rightarrow> s\<lparr>leftReverseTicksTurns := leftReverseTicksTurns s + 1\<rparr>
                | RIGHT \<Rightarrow> s\<lparr>leftForwardTicksTurns := leftForwardTicksTurns s + 1\<rparr>
                | STOP \<Rightarrow> s)
      in if dir s1 = FORWARD then s1\<lparr>forwardDist := ticks_to_cm E (leftForwardTicks s1)\<rparr>
         else if dir s1 = BACKWARD then s1\<lparr>reverseDist := ticks_to_cm E (leftReverseTicks s1)\<rparr>
         else s1)"

definition rightISR :: "alex \<Rightarrow> alex" where
  "rightISR s =
     (let at_FORWARD = (\<lambda>t. t\<lparr>rightForwardTicks := rightForwardTicks t + 1\<rparr>);
          at_BACKWARD = (\<lambda>t. t\<lparr>rightReverseTicks := rightReverseTicks t + 1\<rparr>);
          at_LEFT = (\<lambda>t. t\<lparr>rightForwardTicksTurns := rightForwardTicksTurns t + 1\<rparr>);
          at_RIGHT = (\<lambda>t. t\<lparr>rightReverseTicksTurns := rightReverseTicksTurns t + 1\<rparr>)
      in case dir s of
           FORWARD \<Rightarrow> at_RIGHT (at_LEFT (at_BACKWARD (at_FORWARD s)))
         | BACKWARD \<Rightarrow> at_RIGHT (at_LEFT (at_BACKWARD s))
         | LEFT \<Rightarrow> at_RIGHT (at_LEFT s)
         | RIGHT \<Rightarrow> at_RIGHT s
         | STOP \<Rightarrow> s)"

text \<open>The four tick counters of each wheel, in one fixed order, for stating what a tick changes.\<close>

definition left_ticks :: "alex \<Rightarrow> 32 word list" where
  "left_ticks s =
     [leftForwardTicks s, leftReverseTicks s, leftForwardTicksTurns s, leftReverseTicksTurns s]"

definition right_ticks :: "alex \<Rightarrow> 32 word list" where
  "right_ticks s =
     [rightForwardTicks s, rightReverseTicks s, rightForwardTicksTurns s, rightReverseTicksTurns s]"

subsection \<open>Motion (the motor file)\<close>

text \<open>
  \<^verbatim>\<open>deltaDist = dist\<close> converts a float to \<^verbatim>\<open>unsigned long\<close>: the fraction is dropped.
  (C leaves the conversion undefined outside the range of the target type; here it wraps.)
  The float parameter \<^verbatim>\<open>dist\<close> of \<^verbatim>\<open>forward\<close> and \<^verbatim>\<open>reverse\<close> is called \<open>distance\<close>
  here, \<open>dist\<close> being a constant of the library. \<^verbatim>\<open>move\<close> drives the four motors; only
  the call is recorded.
\<close>

definition ulong_of_float :: "real \<Rightarrow> 32 word" where
  "ulong_of_float x = word_of_int (if 0 \<le> x then \<lfloor>x\<rfloor> else \<lceil>x\<rceil>)"

definition move :: "real \<Rightarrow> TDirection \<Rightarrow> alex \<Rightarrow> alex" where
  "move speed direction s = s\<lparr>trace := trace s @ [Move speed direction]\<rparr>"

definition forward :: "real \<Rightarrow> real \<Rightarrow> alex \<Rightarrow> alex" where
  "forward distance speed s =
     (let s1 = (if distance > 0 then s\<lparr>deltaDist := ulong_of_float distance\<rparr>
                else s\<lparr>deltaDist := 9999999\<rparr>);
          s2 = s1\<lparr>newDist := forwardDist s1 + deltaDist s1\<rparr>;
          s3 = s2\<lparr>dir := FORWARD\<rparr>
      in move speed FORWARD s3)"

definition reverse :: "real \<Rightarrow> real \<Rightarrow> alex \<Rightarrow> alex" where
  "reverse distance speed s =
     (let s1 = (if distance > 0 then s\<lparr>deltaDist := ulong_of_float distance\<rparr>
                else s\<lparr>deltaDist := 9999999\<rparr>);
          s2 = s1\<lparr>newDist := reverseDist s1 + deltaDist s1\<rparr>;
          s3 = s2\<lparr>dir := BACKWARD\<rparr>
      in move speed BACKWARD s3)"

definition left :: "platform \<Rightarrow> real \<Rightarrow> real \<Rightarrow> alex \<Rightarrow> alex" where
  "left E ang speed s =
     (let s1 = (if ang = 0 then s\<lparr>deltaTicks := 9999999\<rparr>
                else s\<lparr>deltaTicks := computeDeltaTicks E ang\<rparr>);
          s2 = s1\<lparr>targetTicks := leftReverseTicksTurns s1 + deltaTicks s1\<rparr>;
          s3 = s2\<lparr>dir := LEFT\<rparr>
      in move speed LEFT s3)"

definition right :: "platform \<Rightarrow> real \<Rightarrow> real \<Rightarrow> alex \<Rightarrow> alex" where
  "right E ang speed s =
     (let s1 = (if ang = 0 then s\<lparr>deltaTicks := 9999999\<rparr>
                else s\<lparr>deltaTicks := computeDeltaTicks E ang\<rparr>);
          s2 = s1\<lparr>targetTicks := rightReverseTicksTurns s1 + deltaTicks s1\<rparr>;
          s3 = s2\<lparr>dir := RIGHT\<rparr>
      in move speed RIGHT s3)"

definition stop :: "alex \<Rightarrow> alex" where
  "stop s = move 0 STOP (s\<lparr>dir := STOP\<rparr>)"

subsection \<open>Counters\<close>

definition clearCounters :: "alex \<Rightarrow> alex" where
  "clearCounters s =
     s\<lparr>leftForwardTicks := 0, rightForwardTicks := 0,
       leftReverseTicks := 0, rightReverseTicks := 0,
       leftForwardTicksTurns := 0, rightForwardTicksTurns := 0,
       rightReverseTicksTurns := 0, leftReverseTicksTurns := 0,
       leftRevs := 0, rightRevs := 0, forwardDist := 0, reverseDist := 0\<rparr>"

definition clearOneCounter :: "32 word \<Rightarrow> alex \<Rightarrow> alex" where
  "clearOneCounter which s = clearCounters s"

definition initializeState :: "alex \<Rightarrow> alex" where
  "initializeState s = clearCounters s"

subsection \<open>Dispatch\<close>

text \<open>
  The switch of \<^verbatim>\<open>handleCommand\<close>, label by label in the order of the source. (C requires
  the labels of one switch to be distinct, so at most one of the tests succeeds.)
\<close>

definition handleCommand :: "platform \<Rightarrow> input \<Rightarrow> TPacket \<Rightarrow> alex \<Rightarrow> alex" where
  "handleCommand E i p s =
     (let c = command p;
          p0 = float_of_param E (params p 0);
          p1 = float_of_param E (params p 1)
      in if c = cmd E COMMAND_FORWARD then forward p0 p1 (sendOK E s)
         else if c = cmd E COMMAND_REVERSE then reverse p0 p1 (sendOK E s)
         else if c = cmd E COMMAND_TURN_RIGHT then right E p0 p1 (sendOK E s)
         else if c = cmd E COMMAND_TURN_LEFT then left E p0 p1 (sendOK E s)
         else if c = cmd E COMMAND_STOP then stop (sendOK E s)
         else if c = cmd E COMMAND_GET_STATS then sendStatus E (sendOK E s)
         else if c = cmd E COMMAND_CLEAR_STATS then clearOneCounter (params p 0) (sendOK E s)
         else if c = cmd E COMMAND_GRAB then grab (sendOK E s)
         else if c = cmd E COMMAND_COLOUR then readColour E i (sendOK E s)
         else if c = cmd E COMMAND_ULTRASONIC then
           (let (cm, s1) = readUltrasonic i (sendOK E s) in sendDist E cm s1)
         else if c = cmd E COMMAND_RELEASE then release_arm (sendOK E s)
         else if c = cmd E COMMAND_MED then medpack (sendOK E s)
         else sendBadCommand E s)"

text \<open>The switch of \<^verbatim>\<open>handlePacket\<close> has five labels and no default.\<close>

definition handlePacket :: "platform \<Rightarrow> input \<Rightarrow> TPacket \<Rightarrow> alex \<Rightarrow> alex" where
  "handlePacket E i p s =
     (let t = packetType p
      in if t = ptype E PACKET_TYPE_COMMAND then handleCommand E i p s
         else if t = ptype E PACKET_TYPE_RESPONSE then s
         else if t = ptype E PACKET_TYPE_ERROR then s
         else if t = ptype E PACKET_TYPE_MESSAGE then s
         else if t = ptype E PACKET_TYPE_HELLO then s
         else s)"

subsection \<open>The handshake loop\<close>

text \<open>
  \<^verbatim>\<open>waitForHello\<close> reads until it has answered a HELLO. Its input is the list of
  the results \<^verbatim>\<open>readPacket\<close> gives from now on; the inner \<^verbatim>\<open>do ... while\<close> skips the
  incomplete ones. The function returns whether the loop was left (\<open>exit\<close>), the state, and
  the input not yet read. When the list runs out first, nothing more ever arrives, the
  loop goes on reading for ever and \<open>exit\<close> is \<open>False\<close>.
\<close>

fun waitForHello :: "platform \<Rightarrow> input list \<Rightarrow> alex \<Rightarrow> bool \<times> alex \<times> input list" where
  "waitForHello E [] s = (False, s, [])"
| "waitForHello E (i # rest) s =
     (if result i = PACKET_INCOMPLETE then waitForHello E rest s
      else if result i = PACKET_OK then
        (if packetType (packet i) = ptype E PACKET_TYPE_HELLO then (True, sendOK E s, rest)
         else waitForHello E rest (sendBadResponse E s))
      else if result i = PACKET_BAD then waitForHello E rest (sendBadPacket E s)
      else if result i = PACKET_CHECKSUM_BAD then waitForHello E rest (sendBadChecksum E s)
      else waitForHello E rest s)"

subsection \<open>setup and loop\<close>

text \<open>
  \<^verbatim>\<open>setup()\<close> computes \<^verbatim>\<open>alexDiag\<close> and \<^verbatim>\<open>alexCirc\<close> (floats read only by
  \<^verbatim>\<open>computeDeltaTicks\<close>), configures interrupts, the serial port and the sensor pins
  (registers outside this state), sets the claw and clears the counters. It does not call
  \<^verbatim>\<open>waitForHello\<close>; nothing in the source files does.
\<close>

definition setup_device :: "alex \<Rightarrow> alex" where
  "setup_device s = initializeState (setupClaw s)"

text \<open>
  The body of \<^verbatim>\<open>loop()\<close> in its two parts: one packet is read and handled, then the
  two trailing \<^verbatim>\<open>if\<close> blocks stop the motors once the distance or tick target is reached
  (\<open>check_targets\<close>, a name of this model).
\<close>

definition check_targets :: "alex \<Rightarrow> alex" where
  "check_targets s1 =
     (let s2 = (if deltaDist s1 > 0 then
                  (if dir s1 = FORWARD then
                     (if forwardDist s1 > newDist s1
                      then stop (s1\<lparr>deltaDist := 0, newDist := 0\<rparr>) else s1)
                   else if dir s1 = BACKWARD then
                     (if reverseDist s1 > newDist s1
                      then stop (s1\<lparr>deltaDist := 0, newDist := 0\<rparr>) else s1)
                   else if dir s1 = STOP then stop (s1\<lparr>deltaDist := 0, newDist := 0\<rparr>)
                   else s1)
                else s1);
          s3 = (if deltaTicks s2 > 0 then
                  (if dir s2 = LEFT then
                     (if leftReverseTicksTurns s2 \<ge> targetTicks s2
                      then stop (s2\<lparr>deltaTicks := 0, targetTicks := 0\<rparr>) else s2)
                   else if dir s2 = RIGHT then
                     (if rightReverseTicksTurns s2 \<ge> targetTicks s2
                      then stop (s2\<lparr>deltaTicks := 0, targetTicks := 0\<rparr>) else s2)
                   else if dir s2 = STOP then stop (s2\<lparr>deltaTicks := 0, targetTicks := 0\<rparr>)
                   else s2)
                else s2)
      in s3)"

definition loop :: "platform \<Rightarrow> input \<Rightarrow> alex \<Rightarrow> alex" where
  "loop E i s =
     check_targets
       (if result i = PACKET_OK then handlePacket E i (packet i) s
        else if result i = PACKET_BAD then sendBadPacket E s
        else if result i = PACKET_CHECKSUM_BAD then sendBadChecksum E s
        else s)"

text \<open>
  The Arduino runtime calls \<^verbatim>\<open>setup()\<close> once and then \<^verbatim>\<open>loop()\<close> again and again:
  a session is the power-on state and what each pass of the loop reads.
\<close>

definition device_main :: "platform \<Rightarrow> alex \<Rightarrow> input list \<Rightarrow> alex" where
  "device_main E boot ins = foldl (\<lambda>s i. loop E i s) (setup_device boot) ins"

subsection \<open>Sample values for evaluation\<close>

text \<open>
  A numbering of the enumerations in their order of declaration here, an all-zero
  uninitialised packet, and the conversion of a parameter slot read as a signed integer
  (exact, as the float conversion is below \<open>2 ^ 24\<close>). The three floating-point results are
  fixed at 0: these are placeholders, not what the sketch computes, and nothing below
  evaluates them. The theorems hold for every \<open>platform\<close>; these values only instantiate
  them.
\<close>

definition zeroPacket :: TPacket where
  "zeroPacket = \<lparr>packetType = 0, command = 0, params = (\<lambda>k. 0)\<rparr>"

definition sample_platform :: platform where
  "sample_platform =
     \<lparr>ptype = (\<lambda>t. case t of PACKET_TYPE_COMMAND \<Rightarrow> 0 | PACKET_TYPE_RESPONSE \<Rightarrow> 1
          | PACKET_TYPE_ERROR \<Rightarrow> 2 | PACKET_TYPE_MESSAGE \<Rightarrow> 3 | PACKET_TYPE_HELLO \<Rightarrow> 4),
       cmd = (\<lambda>c. case c of COMMAND_FORWARD \<Rightarrow> 0 | COMMAND_REVERSE \<Rightarrow> 1
          | COMMAND_TURN_RIGHT \<Rightarrow> 2 | COMMAND_TURN_LEFT \<Rightarrow> 3 | COMMAND_STOP \<Rightarrow> 4
          | COMMAND_GET_STATS \<Rightarrow> 5 | COMMAND_CLEAR_STATS \<Rightarrow> 6 | COMMAND_GRAB \<Rightarrow> 7
          | COMMAND_COLOUR \<Rightarrow> 8 | COMMAND_ULTRASONIC \<Rightarrow> 9 | COMMAND_RELEASE \<Rightarrow> 10
          | COMMAND_MED \<Rightarrow> 11),
       resp = (\<lambda>r. case r of RESP_OK \<Rightarrow> 0 | RESP_STATUS \<Rightarrow> 1 | RESP_COLOUR \<Rightarrow> 2
          | RESP_ULTRASONIC \<Rightarrow> 3 | RESP_BAD_PACKET \<Rightarrow> 4 | RESP_BAD_CHECKSUM \<Rightarrow> 5
          | RESP_BAD_COMMAND \<Rightarrow> 6 | RESP_BAD_RESPONSE \<Rightarrow> 7),
       uninit = zeroPacket,
       float_of_param = (\<lambda>w. real_of_int (sint w)),
       computeDeltaTicks = (\<lambda>ang. 0),
       ticks_to_cm = (\<lambda>t. 0),
       min_index = (\<lambda>r g b. 0)\<rparr>"

definition boot_state :: alex where
  "boot_state =
     \<lparr>dir = STOP, leftForwardTicks = 0, rightForwardTicks = 0, rightReverseTicks = 0,
       leftReverseTicks = 0, rightForwardTicksTurns = 0, leftForwardTicksTurns = 0,
       rightReverseTicksTurns = 0, leftReverseTicksTurns = 0, leftRevs = 0, rightRevs = 0,
       forwardDist = 0, reverseDist = 0, deltaDist = 0, newDist = 0, deltaTicks = 0,
       targetTicks = 0, trace = []\<rparr>"

definition quiet :: "TResult \<Rightarrow> TPacket \<Rightarrow> input" where
  "quiet r p = \<lparr>result = r, packet = p, ultrasonic = 0, frequency = (\<lambda>s2 s3. 0)\<rparr>"

definition sample_command :: "TCommandType \<Rightarrow> 32 word \<Rightarrow> 32 word \<Rightarrow> TPacket" where
  "sample_command k a b =
     \<lparr>packetType = ptype sample_platform PACKET_TYPE_COMMAND,
       command = cmd sample_platform k, params = (\<lambda>n. 0)(0 := a, 1 := b)\<rparr>"

definition sample_hello :: TPacket where
  "sample_hello = zeroPacket\<lparr>packetType := ptype sample_platform PACKET_TYPE_HELLO\<rparr>"

text \<open>The test under which \<^verbatim>\<open>waitForHello\<close> leaves its loop.\<close>

definition decoded_hello :: "platform \<Rightarrow> input \<Rightarrow> bool" where
  "decoded_hello E i =
     (result i = PACKET_OK \<and> packetType (packet i) = ptype E PACKET_TYPE_HELLO)"

text \<open>The codes of the twelve commands, as the switch of \<^verbatim>\<open>handleCommand\<close> lists them.\<close>

definition command_codes :: "platform \<Rightarrow> 8 word list" where
  "command_codes E =
     map (cmd E)
       [COMMAND_FORWARD, COMMAND_REVERSE, COMMAND_TURN_RIGHT, COMMAND_TURN_LEFT,
        COMMAND_STOP, COMMAND_GET_STATS, COMMAND_CLEAR_STATS, COMMAND_GRAB,
        COMMAND_COLOUR, COMMAND_ULTRASONIC, COMMAND_RELEASE, COMMAND_MED]"

section \<open>The operator console (tls-alex-client.cpp)\<close>

text \<open>
  netconstants.h and make_tls_client.h are not among the source files: the byte
  \<^verbatim>\<open>NET_COMMAND_PACKET\<close> and the size of a pointer on the host are parameters.
  \<^verbatim>\<open>memcpy\<close> between \<^verbatim>\<open>int32_t\<close> and \<^verbatim>\<open>char\<close> arrays uses the byte order of the host,
  taken to be little-endian.
\<close>

record host =
  net_command_packet :: "8 word"
  sizeof_pointer :: nat

definition le32 :: "32 word \<Rightarrow> 8 word list" where
  "le32 w = [ucast w, ucast (drop_bit 8 w), ucast (drop_bit 16 w), ucast (drop_bit 24 w)]"

definition rd32 :: "8 word \<Rightarrow> 8 word \<Rightarrow> 8 word \<Rightarrow> 8 word \<Rightarrow> 32 word" where
  "rd32 a b c d =
     ucast a OR push_bit 8 (ucast b) OR push_bit 16 (ucast c) OR push_bit 24 (ucast d)"

subsection \<open>Reading a status report\<close>

text \<open>
  The receive buffer is \<^verbatim>\<open>char buffer[128]\<close>, an array indexed from 0.
  \<^verbatim>\<open>memcpy(data, &buffer[1], sizeof(data))\<close> makes \<^verbatim>\<open>data[k]\<close> the four bytes from index
  \<open>1 + 4 * k\<close> on. \<^verbatim>\<open>handleStatus\<close> prints ten labelled lines with \<^verbatim>\<open>%d\<close>: the result
  here is the list of labels and the signed values printed.
\<close>

definition int32_at :: "(nat \<Rightarrow> 8 word) \<Rightarrow> nat \<Rightarrow> 32 word" where
  "int32_at buffer k =
     rd32 (buffer (1 + 4 * k)) (buffer (2 + 4 * k)) (buffer (3 + 4 * k)) (buffer (4 + 4 * k))"

definition handleStatus :: "(nat \<Rightarrow> 8 word) \<Rightarrow> (string \<times> int) list" where
  "handleStatus buffer =
     (let data = int32_at buffer
      in [(''Left Forward Ticks'', sint (data 0)),
          (''Right Forward Ticks'', sint (data 1)),
          (''Left Reverse Ticks'', sint (data 2)),
          (''Right Reverse Ticks'', sint (data 3)),
          (''Left Forward Ticks Turns'', sint (data 4)),
          (''Right Forward Ticks Turns'', sint (data 5)),
          (''Left Reverse Ticks Turns'', sint (data 6)),
          (''Right Reverse Ticks Turns'', sint (data 7)),
          (''Forward Distance'', sint (data 8)),
          (''Reverse Distance'', sint (data 9))])"

subsection \<open>The keyboard thread\<close>

text \<open>
  What the keyboard thread does, in order: its prompt, the line \<^verbatim>\<open>SENDING n BYTES DATA\<close>,
  a call \<^verbatim>\<open>sslWrite(conn, buffer, n)\<close> with the bytes of the array \<open>buffer\<close> points to and
  the count \<open>n\<close> asked for, the line \<^verbatim>\<open>BAD COMMAND\<close>, the line
  \<^verbatim>\<open>Exiting keyboard thread\<close>, \<^verbatim>\<open>stopClient()\<close> and \<^verbatim>\<open>EXIT_THREAD(conn)\<close>.
\<close>

datatype console_event =
  Prompt
  | Sending nat
  | SslWrite "8 word list" nat
  | BadCommand
  | ExitingKeyboardThread
  | StopClient
  | ExitThread

text \<open>
  \<^verbatim>\<open>networkActive\<close> is a file-static \<^verbatim>\<open>int\<close> that only ever holds 0 or 1
  (\<^verbatim>\<open>main\<close> sets it to 1 before the threads start). The keyboard thread is modelled on
  its own: the reader thread, which clears the flag when a read fails, does not run
  between its steps.
\<close>

record client =
  networkActive :: bool
  console :: "console_event list"

text \<open>
  One line of operator input: the character \<^verbatim>\<open>scanf("%c", &ch)\<close> reads, which is the
  first character of the line or the newline of an empty line (the rest of the line is
  flushed), and what \<^verbatim>\<open>sslWrite\<close> returns if the key leads to a write.
\<close>

record keystroke =
  key :: char
  write_result :: int

definition DEFAULT_DIST :: "32 word" where "DEFAULT_DIST = 5"
definition DEFAULT_POWER :: "32 word" where "DEFAULT_POWER = 50"
definition TURNING_POWER :: "32 word" where "TURNING_POWER = 100"
definition DEFAULT_ANG :: "32 word" where "DEFAULT_ANG = 90"

text \<open>
  In \<^verbatim>\<open>sendData\<close> the parameter \<open>buffer\<close> is a \<^verbatim>\<open>const char *\<close>, so
  \<^verbatim>\<open>sizeof(buffer)\<close> is the size of a pointer; \<open>len\<close> is only printed.
\<close>

definition sendData :: "host \<Rightarrow> int \<Rightarrow> 8 word list \<Rightarrow> nat \<Rightarrow> client \<Rightarrow> client" where
  "sendData H c buffer len s =
     (let s1 = s\<lparr>console := console s @ [Sending len]\<rparr>
      in if networkActive s1
         then s1\<lparr>console := console s1 @ [SslWrite buffer (sizeof_pointer H)],
                networkActive := (c > 0)\<rparr>
         else s1)"

text \<open>
  The statements every sending case of the switch repeats: \<^verbatim>\<open>buffer[0]\<close> is the packet
  type, \<^verbatim>\<open>buffer[1]\<close> the command letter, and \<^verbatim>\<open>memcpy(&buffer[2], params, sizeof(params))\<close>
  copies the two parameters into the remaining eight bytes of \<^verbatim>\<open>char buffer[10]\<close>; then
  \<^verbatim>\<open>sendData(conn, buffer, sizeof(buffer))\<close>, where \<^verbatim>\<open>sizeof(buffer)\<close> is 10.
\<close>

definition command_buffer :: "host \<Rightarrow> 8 word \<Rightarrow> 32 word \<Rightarrow> 32 word \<Rightarrow> 8 word list" where
  "command_buffer H letter p0 p1 = [net_command_packet H, letter] @ le32 p0 @ le32 p1"

definition send_command :: "host \<Rightarrow> int \<Rightarrow> char \<Rightarrow> 32 word \<Rightarrow> 32 word \<Rightarrow> client \<Rightarrow> client" where
  "send_command H c letter p0 p1 s = sendData H c (command_buffer H (of_char letter) p0 p1) 10 s"

text \<open>
  The body of the \<^verbatim>\<open>while(!quit)\<close> loop of \<^verbatim>\<open>writerThread\<close>: the prompt, then the
  switch on the key. The result is the new value of \<open>quit\<close> and the state.
\<close>

definition on_key :: "host \<Rightarrow> keystroke \<Rightarrow> client \<Rightarrow> bool \<times> client" where
  "on_key H k s =
     (let s0 = s\<lparr>console := console s @ [Prompt]\<rparr>; ch = key k; c = write_result k
      in if ch = CHR ''f'' then (False, send_command H c CHR ''f'' DEFAULT_DIST DEFAULT_POWER s0)
         else if ch = CHR ''F'' then (False, send_command H c CHR ''F'' DEFAULT_DIST DEFAULT_POWER s0)
         else if ch = CHR ''b'' then (False, send_command H c CHR ''b'' DEFAULT_DIST DEFAULT_POWER s0)
         else if ch = CHR ''B'' then (False, send_command H c CHR ''B'' DEFAULT_DIST DEFAULT_POWER s0)
         else if ch = CHR ''l'' then (False, send_command H c CHR ''l'' DEFAULT_ANG TURNING_POWER s0)
         else if ch = CHR ''L'' then (False, send_command H c CHR ''L'' DEFAULT_ANG TURNING_POWER s0)
         else if ch = CHR ''r'' then (False, send_command H c CHR ''r'' DEFAULT_ANG TURNING_POWER s0)
         else if ch = CHR ''R'' then (False, send_command H c CHR ''R'' DEFAULT_ANG TURNING_POWER s0)
         else if ch = CHR ''h'' then (False, send_command H c CHR ''h'' 0 0 s0)
         else if ch = CHR ''v'' then (False, send_command H c CHR ''u'' 0 0 s0)
         else if ch = CHR ''t'' then (False, send_command H c CHR ''m'' 0 0 s0)
         else if ch = CHR ''s'' \<or> ch = CHR ''S'' \<or> ch = CHR ''c'' \<or> ch = CHR ''C''
                 \<or> ch = CHR ''g'' \<or> ch = CHR ''G''
           then (False, send_command H c ch 0 0 s0)
         else if ch = CHR ''q'' \<or> ch = CHR ''Q'' then (True, s0)
         else (False, s0\<lparr>console := console s0 @ [BadCommand]\<rparr>))"

text \<open>
  \<^verbatim>\<open>writerThread\<close> on the lines the operator types while standard input stays open.
  Once \<open>quit\<close> is set the loop is left, the thread prints its last line, calls
  \<^verbatim>\<open>stopClient()\<close> and exits; the lines after that are not read. When no further line is
  typed the thread stays blocked in \<^verbatim>\<open>scanf\<close>. On an empty line \<^verbatim>\<open>scanf\<close> reads the
  newline itself, and \<^verbatim>\<open>flushInput\<close> then swallows the whole of the next line. The end
  of standard input (after which \<^verbatim>\<open>scanf\<close> assigns nothing and the loop runs on without
  waiting) is not modelled.
\<close>

fun writerThread :: "host \<Rightarrow> keystroke list \<Rightarrow> client \<Rightarrow> client" where
  "writerThread H [] s = s"
| "writerThread H (k # ks) s =
     (let (quit, s1) = on_key H k s
      in if quit
         then s1\<lparr>console := console s1 @ [ExitingKeyboardThread, StopClient, ExitThread]\<rparr>
         else writerThread H (if key k = CHR 0x0A then drop 1 ks else ks) s1)"

definition sample_host :: host where
  "sample_host = \<lparr>net_command_packet = 3, sizeof_pointer = 8\<rparr>"

definition pressed :: "char \<Rightarrow> keystroke" where
  "pressed ch = \<lparr>key = ch, write_result = 8\<rparr>"

definition connected :: client where
  "connected = \<lparr>networkActive = True, console = []\<rparr>"

text \<open>
  For evaluation: a device state with ten different counters, and a receive buffer that
  holds a type byte followed by the little-endian bytes of the sixteen slots of a packet
  (the form in which the relay between the two programs, which is not among the source
  files, would hand a status packet on).
\<close>

definition counting :: alex where
  "counting =
     boot_state\<lparr>leftForwardTicks := 1, rightForwardTicks := 2, leftReverseTicks := 3,
       rightReverseTicks := 4, leftForwardTicksTurns := 5, rightForwardTicksTurns := 6,
       leftReverseTicksTurns := 7, rightReverseTicksTurns := 8, forwardDist := 9,
       reverseDist := 10\<rparr>"

definition wire_image :: "8 word \<Rightarrow> TPacket \<Rightarrow> nat \<Rightarrow> 8 word" where
  "wire_image t p j =
     (if j = 0 then t else le32 (params p ((j - 1) div 4)) ! ((j - 1) mod 4))"

section \<open>Theorems\<close>

text \<open>
  C9 as stated fails for the left wheel when the robot is stopped: with \<open>dir = STOP\<close> no
  case of the switch of \<^verbatim>\<open>leftISR\<close> matches, and a tick of the left encoder changes none
  of the four left-wheel counters.
\<close>

theorem left_tick_while_stopped:
  "dir boot_state = STOP
   \<and> left_ticks boot_state = [0, 0, 0, 0]
   \<and> left_ticks (leftISR sample_platform boot_state) = [0, 0, 0, 0]"
  by (simp add: leftISR_def left_ticks_def boot_state_def)

text \<open>
  C9, amended. With \<open>dir\<close> one of FORWARD, BACKWARD, LEFT, RIGHT, a tick of the left
  encoder adds one to exactly the left-wheel counter of that direction (forward, reverse,
  reverse-turn for LEFT, forward-turn for RIGHT). A tick of the right encoder falls
  through the switch: with \<open>dir = FORWARD\<close> all four right-wheel counters grow by one,
  with \<open>BACKWARD\<close> three (reverse and both turn counters), with \<open>LEFT\<close> two (both turn
  counters), with \<open>RIGHT\<close> one. Neither handler touches the other wheel's counters, and
  with \<open>dir = STOP\<close> neither counts anything.
\<close>

theorem isr_tick_increments:
  "left_ticks (leftISR E s) =
     map2 (+) (left_ticks s)
       (case dir s of FORWARD \<Rightarrow> [1, 0, 0, 0] | BACKWARD \<Rightarrow> [0, 1, 0, 0]
        | LEFT \<Rightarrow> [0, 0, 0, 1] | RIGHT \<Rightarrow> [0, 0, 1, 0] | STOP \<Rightarrow> [0, 0, 0, 0])
   \<and> right_ticks (leftISR E s) = right_ticks s
   \<and> right_ticks (rightISR s) =
     map2 (+) (right_ticks s)
       (case dir s of FORWARD \<Rightarrow> [1, 1, 1, 1] | BACKWARD \<Rightarrow> [0, 1, 1, 1]
        | LEFT \<Rightarrow> [0, 0, 1, 1] | RIGHT \<Rightarrow> [0, 0, 0, 1] | STOP \<Rightarrow> [0, 0, 0, 0])
   \<and> left_ticks (rightISR s) = left_ticks s"
  by (cases "dir s") (simp_all add: leftISR_def rightISR_def left_ticks_def right_ticks_def Let_def)

subsection \<open>Helper facts\<close>

text \<open>Distinct codes for the twelve switch labels mean that the numbering is injective.\<close>

lemma all_commands_listed:
  "set [COMMAND_FORWARD, COMMAND_REVERSE, COMMAND_TURN_RIGHT, COMMAND_TURN_LEFT,
        COMMAND_STOP, COMMAND_GET_STATS, COMMAND_CLEAR_STATS, COMMAND_GRAB,
        COMMAND_COLOUR, COMMAND_ULTRASONIC, COMMAND_RELEASE, COMMAND_MED] = UNIV"
proof -
  have "c \<in> set [COMMAND_FORWARD, COMMAND_REVERSE, COMMAND_TURN_RIGHT, COMMAND_TURN_LEFT,
        COMMAND_STOP, COMMAND_GET_STATS, COMMAND_CLEAR_STATS, COMMAND_GRAB,
        COMMAND_COLOUR, COMMAND_ULTRASONIC, COMMAND_RELEASE, COMMAND_MED]" for c
    by (cases c) simp_all
  then show ?thesis by blast
qed

lemma inj_cmd: "distinct (command_codes E) \<Longrightarrow> inj (cmd E)"
  unfolding command_codes_def distinct_map all_commands_listed by simp

text \<open>
  What \<^verbatim>\<open>waitForHello\<close> does with frames that are not a decoded HELLO: it answers each
  according to its result and reads on. None of the answers is a RESPONSE packet with
  code \<open>RESP_OK\<close>, provided the ERROR and RESPONSE packet types have different numbers.
\<close>

lemma waitForHello_prefix:
  assumes "\<forall>i \<in> set pre. \<not> decoded_hello E i"
  shows "waitForHello E (pre @ post) s =
     waitForHello E post
       (s\<lparr>trace := trace s @
          concat (map (\<lambda>i. case result i of
                PACKET_OK \<Rightarrow>
                  [Sent ((uninit E)\<lparr>packetType := ptype E PACKET_TYPE_ERROR,
                                    command := resp E RESP_BAD_RESPONSE\<rparr>)]
              | PACKET_BAD \<Rightarrow>
                  [Sent ((uninit E)\<lparr>packetType := ptype E PACKET_TYPE_ERROR,
                                    command := resp E RESP_BAD_PACKET\<rparr>)]
              | PACKET_CHECKSUM_BAD \<Rightarrow>
                  [Sent ((uninit E)\<lparr>packetType := ptype E PACKET_TYPE_ERROR,
                                    command := resp E RESP_BAD_CHECKSUM\<rparr>)]
              | PACKET_INCOMPLETE \<Rightarrow> []) pre)\<rparr>)"
  using assms
proof (induction pre arbitrary: s)
  case Nil
  then show ?case by simp
next
  case (Cons i pre)
  then show ?case
    by (cases "result i")
      (simp_all add: decoded_hello_def sendBadResponse_def sendBadPacket_def
        sendBadChecksum_def sendResponse_def errorPacket_def)
qed

lemma count_refusals:
  assumes "ptype E PACKET_TYPE_ERROR \<noteq> ptype E PACKET_TYPE_RESPONSE"
  shows "filter (\<lambda>e. case e of
             Sent p \<Rightarrow> packetType p = ptype E PACKET_TYPE_RESPONSE \<and> command p = resp E RESP_OK
           | _ \<Rightarrow> False)
     (concat (map (\<lambda>i. case result i of
                PACKET_OK \<Rightarrow>
                  [Sent ((uninit E)\<lparr>packetType := ptype E PACKET_TYPE_ERROR,
                                    command := resp E RESP_BAD_RESPONSE\<rparr>)]
              | PACKET_BAD \<Rightarrow>
                  [Sent ((uninit E)\<lparr>packetType := ptype E PACKET_TYPE_ERROR,
                                    command := resp E RESP_BAD_PACKET\<rparr>)]
              | PACKET_CHECKSUM_BAD \<Rightarrow>
                  [Sent ((uninit E)\<lparr>packetType := ptype E PACKET_TYPE_ERROR,
                                    command := resp E RESP_BAD_CHECKSUM\<rparr>)]
              | PACKET_INCOMPLETE \<Rightarrow> []) pre)) = []"
  using assms
  by (induction pre) (simp_all split: TResult.split)

text \<open>Four bytes written by \<open>le32\<close> are read back by \<open>rd32\<close> as the same word.\<close>

lemma rd32_le32: "[a, b, c, d] = le32 w \<Longrightarrow> rd32 a b c d = w"
proof -
  assume "[a, b, c, d] = le32 w"
  then have abcd: "a = ucast w" "b = ucast (drop_bit 8 w)" "c = ucast (drop_bit 16 w)"
      "d = ucast (drop_bit 24 w)"
    by (simp_all add: le32_def)
  show ?thesis
    unfolding rd32_def abcd
  proof (rule bit_word_eqI)
    fix n :: nat
    assume "n < LENGTH(32)"
    then have n: "n < 32" by simp
    consider "n < 8" | "8 \<le> n" "n < 16" | "16 \<le> n" "n < 24" | "24 \<le> n"
      by linarith
    then show "bit (ucast (ucast w :: 8 word) OR push_bit 8 (ucast (ucast (drop_bit 8 w) :: 8 word))
        OR push_bit 16 (ucast (ucast (drop_bit 16 w) :: 8 word))
        OR push_bit 24 (ucast (ucast (drop_bit 24 w) :: 8 word)) :: 32 word) n = bit w n"
      using n by cases (auto simp: bit_simps)
  qed
qed

lemma int32_at_slot:
  "[buffer (1 + 4 * k), buffer (2 + 4 * k), buffer (3 + 4 * k), buffer (4 + 4 * k)] = le32 w
   \<Longrightarrow> int32_at buffer k = w"
  unfolding int32_at_def by (rule rd32_le32)

lemma wire_image_slot:
  "[wire_image t p (1 + 4 * k), wire_image t p (2 + 4 * k), wire_image t p (3 + 4 * k),
    wire_image t p (4 + 4 * k)] = le32 (params p k)"
proof -
  have e: "1 + 4 * k - 1 = 4 * k + 0" "2 + 4 * k - 1 = 4 * k + 1"
    "3 + 4 * k - 1 = 4 * k + 2" "4 + 4 * k - 1 = 4 * k + 3"
    by simp_all
  have d: "(4 * k + r) div 4 = k" "(4 * k + r) mod 4 = r" if "r < 4" for r
    using that by simp_all
  have dm: "(1 + 4 * k - 1) div 4 = k" "(1 + 4 * k - 1) mod 4 = 0"
    "(2 + 4 * k - 1) div 4 = k" "(2 + 4 * k - 1) mod 4 = 1"
    "(3 + 4 * k - 1) div 4 = k" "(3 + 4 * k - 1) mod 4 = 2"
    "(4 + 4 * k - 1) div 4 = k" "(4 + 4 * k - 1) mod 4 = 3"
    unfolding e using d [of 0] d [of 1] d [of 2] d [of 3] by simp_all
  have "wire_image t p (1 + 4 * k) = le32 (params p k) ! 0"
    "wire_image t p (2 + 4 * k) = le32 (params p k) ! 1"
    "wire_image t p (3 + 4 * k) = le32 (params p k) ! 2"
    "wire_image t p (4 + 4 * k) = le32 (params p k) ! 3"
    unfolding wire_image_def dm by simp_all
  then show ?thesis
    by (simp add: le32_def)
qed

text \<open>The switch of the keyboard thread, key by key: the buffer each sending key builds.\<close>

lemma on_key_table:
  "list_all (\<lambda>(ch, letter, p0, p1).
       on_key H \<lparr>key = ch, write_result = c\<rparr> s =
         (False, sendData H c ([net_command_packet H, of_char letter] @ le32 p0 @ le32 p1) 10
            (s\<lparr>console := console s @ [Prompt]\<rparr>)))
     [(CHR ''f'', CHR ''f'', 5, 50), (CHR ''F'', CHR ''F'', 5, 50),
      (CHR ''b'', CHR ''b'', 5, 50), (CHR ''B'', CHR ''B'', 5, 50),
      (CHR ''l'', CHR ''l'', 90, 100), (CHR ''L'', CHR ''L'', 90, 100),
      (CHR ''r'', CHR ''r'', 90, 100), (CHR ''R'', CHR ''R'', 90, 100),
      (CHR ''h'', CHR ''h'', 0, 0), (CHR ''v'', CHR ''u'', 0, 0), (CHR ''t'', CHR ''m'', 0, 0),
      (CHR ''s'', CHR ''s'', 0, 0), (CHR ''S'', CHR ''S'', 0, 0),
      (CHR ''c'', CHR ''c'', 0, 0), (CHR ''C'', CHR ''C'', 0, 0),
      (CHR ''g'', CHR ''g'', 0, 0), (CHR ''G'', CHR ''G'', 0, 0)]"
  by (simp add: on_key_def send_command_def command_buffer_def Let_def
      DEFAULT_DIST_def DEFAULT_POWER_def DEFAULT_ANG_def TURNING_POWER_def)

subsection \<open>The dispatcher\<close>

text \<open>
  C3. A COMMAND packet whose code is none of the twelve codes of the switch takes the
  default branch: the state is unchanged but for one more packet in the log, an ERROR
  packet with code \<open>RESP_BAD_COMMAND\<close>; no motor, servo or sensor event, no counter
  changed. The session goes on: the pass of the loop that read the packet ends as usual
  and the later passes run on the state it leaves.
\<close>

theorem unknown_command_is_refused:
  assumes "command p \<notin> set (command_codes E)"
    and "result i = PACKET_OK" and "packet i = p"
    and "packetType p = ptype E PACKET_TYPE_COMMAND"
  shows "handleCommand E i p s =
           s\<lparr>trace := trace s @ [Sent ((uninit E)\<lparr>packetType := ptype E PACKET_TYPE_ERROR,
                                                command := resp E RESP_BAD_COMMAND\<rparr>)]\<rparr>
         \<and> device_main E boot (ins @ i # later) =
             foldl (\<lambda>s j. loop E j s)
               (check_targets
                 ((device_main E boot ins)
                    \<lparr>trace := trace (device_main E boot ins) @
                       [Sent ((uninit E)\<lparr>packetType := ptype E PACKET_TYPE_ERROR,
                                         command := resp E RESP_BAD_COMMAND\<rparr>)]\<rparr>))
               later"
proof -
  have refused: "handleCommand E i p t =
      t\<lparr>trace := trace t @ [Sent ((uninit E)\<lparr>packetType := ptype E PACKET_TYPE_ERROR,
                                         command := resp E RESP_BAD_COMMAND\<rparr>)]\<rparr>" for t
    using assms(1)
    by (simp add: handleCommand_def command_codes_def sendBadCommand_def sendResponse_def
        errorPacket_def)
  have pass: "loop E i t = check_targets (handleCommand E i p t)" for t
    using assms(2-4) by (simp add: loop_def handlePacket_def)
  show ?thesis
    by (simp add: refused pass device_main_def)
qed

theorem unknown_command_is_refused_witness:
  "command ((sample_command COMMAND_STOP 0 0)\<lparr>command := 200\<rparr>)
     \<notin> set (command_codes sample_platform)
   \<and> trace (device_main sample_platform boot_state
        [quiet PACKET_OK ((sample_command COMMAND_STOP 0 0)\<lparr>command := 200\<rparr>),
         quiet PACKET_OK (sample_command COMMAND_STOP 0 0)]) =
      [ServoWrite 3 10, ServoWrite 1 0, ServoWrite 2 60,
       Sent (errorPacket sample_platform RESP_BAD_COMMAND),
       Sent (okPacket sample_platform), Move 0 STOP]"
  using unknown_command_is_refused [of "(sample_command COMMAND_STOP 0 0)\<lparr>command := 200\<rparr>"
      sample_platform
      "quiet PACKET_OK ((sample_command COMMAND_STOP 0 0)\<lparr>command := 200\<rparr>)"
      boot_state boot_state "[]" "[quiet PACKET_OK (sample_command COMMAND_STOP 0 0)]"]
  by (simp add: device_main_def setup_device_def initializeState_def clearCounters_def
      setupClaw_def servo_write_def loop_def check_targets_def handlePacket_def
      handleCommand_def stop_def move_def sendOK_def sendBadCommand_def sendResponse_def
      okPacket_def errorPacket_def command_codes_def quiet_def sample_command_def
      sample_platform_def zeroPacket_def boot_state_def Let_def)

text \<open>
  C6. For each of the twelve command codes, the state after the dispatch, written out.
  The first event added to the log is always the acknowledgment, a RESPONSE packet with
  code \<open>RESP_OK\<close>; what the collaborator does comes after it: the motion target, the
  direction and the motor call for the five motion commands, the twelve counters set to
  zero for clear-stats, the servo writes for grab, release and deliver. For the three
  queries the last event is the RESPONSE packet with the values read: code
  \<open>RESP_STATUS\<close> with the ten counters for get-stats, code \<open>RESP_COLOUR\<close> with the three
  pulse lengths and the colour index after the three sensor reads, code
  \<open>RESP_ULTRASONIC\<close> with the distance after the sensor read.
\<close>

theorem recognised_command_ok_first:
  assumes "distinct (command_codes E)" and "command p = cmd E k"
  shows "handleCommand E i p s =
     (let ok = (uninit E)\<lparr>packetType := ptype E PACKET_TYPE_RESPONSE, command := resp E RESP_OK\<rparr>;
          p0 = float_of_param E (params p 0);
          p1 = float_of_param E (params p 1)
      in case k of
          COMMAND_FORWARD \<Rightarrow>
            s\<lparr>deltaDist := (if 0 < p0 then ulong_of_float p0 else 9999999),
              newDist := forwardDist s + (if 0 < p0 then ulong_of_float p0 else 9999999),
              dir := FORWARD,
              trace := trace s @ [Sent ok, Move p1 FORWARD]\<rparr>
        | COMMAND_REVERSE \<Rightarrow>
            s\<lparr>deltaDist := (if 0 < p0 then ulong_of_float p0 else 9999999),
              newDist := reverseDist s + (if 0 < p0 then ulong_of_float p0 else 9999999),
              dir := BACKWARD,
              trace := trace s @ [Sent ok, Move p1 BACKWARD]\<rparr>
        | COMMAND_TURN_RIGHT \<Rightarrow>
            s\<lparr>deltaTicks := (if p0 = 0 then 9999999 else computeDeltaTicks E p0),
              targetTicks := rightReverseTicksTurns s
                + (if p0 = 0 then 9999999 else computeDeltaTicks E p0),
              dir := RIGHT,
              trace := trace s @ [Sent ok, Move p1 RIGHT]\<rparr>
        | COMMAND_TURN_LEFT \<Rightarrow>
            s\<lparr>deltaTicks := (if p0 = 0 then 9999999 else computeDeltaTicks E p0),
              targetTicks := leftReverseTicksTurns s
                + (if p0 = 0 then 9999999 else computeDeltaTicks E p0),
              dir := LEFT,
              trace := trace s @ [Sent ok, Move p1 LEFT]\<rparr>
        | COMMAND_STOP \<Rightarrow> s\<lparr>dir := STOP, trace := trace s @ [Sent ok, Move 0 STOP]\<rparr>
        | COMMAND_GET_STATS \<Rightarrow>
            s\<lparr>trace := trace s @
              [Sent ok,
               Sent ((uninit E)\<lparr>packetType := ptype E PACKET_TYPE_RESPONSE,
                 command := resp E RESP_STATUS,
                 params := (params (uninit E))
                   (0 := leftForwardTicks s, 1 := rightForwardTicks s,
                    2 := leftReverseTicks s, 3 := rightReverseTicks s,
                    4 := leftForwardTicksTurns s, 5 := rightForwardTicksTurns s,
                    6 := leftReverseTicksTurns s, 7 := rightReverseTicksTurns s,
                    8 := forwardDist s, 9 := reverseDist s)\<rparr>)]\<rparr>
        | COMMAND_CLEAR_STATS \<Rightarrow>
            s\<lparr>leftForwardTicks := 0, rightForwardTicks := 0,
              leftReverseTicks := 0, rightReverseTicks := 0,
              leftForwardTicksTurns := 0, rightForwardTicksTurns := 0,
              rightReverseTicksTurns := 0, leftReverseTicksTurns := 0,
              leftRevs := 0, rightRevs := 0, forwardDist := 0, reverseDist := 0,
              trace := trace s @ [Sent ok]\<rparr>
        | COMMAND_GRAB \<Rightarrow>
            s\<lparr>trace := trace s @ [Sent ok, ServoWrite 1 40, ServoWrite 2 20]\<rparr>
        | COMMAND_COLOUR \<Rightarrow>
            s\<lparr>trace := trace s @
              [Sent ok,
               ReadFrequency False False, ReadFrequency True True, ReadFrequency False True,
               Sent ((uninit E)\<lparr>packetType := ptype E PACKET_TYPE_RESPONSE,
                 command := resp E RESP_COLOUR,
                 params := (params (uninit E))
                   (0 := frequency i False False, 1 := frequency i True True,
                    2 := frequency i False True,
                    3 := min_index E (frequency i False False) (frequency i True True)
                           (frequency i False True))\<rparr>)]\<rparr>
        | COMMAND_ULTRASONIC \<Rightarrow>
            s\<lparr>trace := trace s @
              [Sent ok, ReadUltrasonic,
               Sent ((uninit E)\<lparr>packetType := ptype E PACKET_TYPE_RESPONSE,
                 command := resp E RESP_ULTRASONIC,
                 params := (params (uninit E))(0 := ultrasonic i)\<rparr>)]\<rparr>
        | COMMAND_RELEASE \<Rightarrow>
            s\<lparr>trace := trace s @ [Sent ok, ServoWrite 1 0, ServoWrite 2 75]\<rparr>
        | COMMAND_MED \<Rightarrow> s\<lparr>trace := trace s @ [Sent ok, ServoWrite 3 90]\<rparr>)"
proof -
  have "inj (cmd E)" using assms(1) by (rule inj_cmd)
  then show ?thesis using assms(2)
    by (cases k)
      (simp_all add: inj_eq handleCommand_def Let_def sendOK_def okPacket_def sendResponse_def
        forward_def reverse_def left_def right_def stop_def move_def sendStatus_def
        statusPacket_def clearOneCounter_def clearCounters_def grab_def release_arm_def
        medpack_def servo_write_def readColour_def readFrequency_def readUltrasonic_def
        sendDist_def)
qed

theorem recognised_command_ok_first_witness:
  "distinct (command_codes sample_platform)
   \<and> command (sample_command COMMAND_ULTRASONIC 0 0) = cmd sample_platform COMMAND_ULTRASONIC
   \<and> handleCommand sample_platform
        ((quiet PACKET_OK (sample_command COMMAND_ULTRASONIC 0 0))\<lparr>ultrasonic := 17\<rparr>)
        (sample_command COMMAND_ULTRASONIC 0 0) boot_state =
      boot_state\<lparr>trace :=
        [Sent \<lparr>packetType = 1, command = 0, params = (\<lambda>k. 0)\<rparr>,
         ReadUltrasonic,
         Sent \<lparr>packetType = 1, command = 3, params = (\<lambda>k. 0)(0 := 17)\<rparr>]\<rparr>"
  using recognised_command_ok_first [of sample_platform "sample_command COMMAND_ULTRASONIC 0 0"
      COMMAND_ULTRASONIC
      "(quiet PACKET_OK (sample_command COMMAND_ULTRASONIC 0 0))\<lparr>ultrasonic := 17\<rparr>"
      boot_state]
  by (simp add: command_codes_def sample_command_def sample_platform_def zeroPacket_def
      quiet_def boot_state_def Let_def)

text \<open>
  C8. A COMMAND_CLEAR_STATS packet sends OK and sets all eight tick counters, both
  revolution counters and both distances to zero, whatever its first parameter is:
  replacing slot 0 by any value gives the same state.
\<close>

theorem clear_stats_ignores_parameter:
  assumes "distinct (command_codes E)" and "command p = cmd E COMMAND_CLEAR_STATS"
  shows "handleCommand E i (p\<lparr>params := (params p)(0 := v)\<rparr>) s = handleCommand E i p s
    \<and> handleCommand E i p s =
        s\<lparr>trace := trace s @ [Sent (okPacket E)],
          leftForwardTicks := 0, rightForwardTicks := 0,
          leftReverseTicks := 0, rightReverseTicks := 0,
          leftForwardTicksTurns := 0, rightForwardTicksTurns := 0,
          rightReverseTicksTurns := 0, leftReverseTicksTurns := 0,
          leftRevs := 0, rightRevs := 0, forwardDist := 0, reverseDist := 0\<rparr>"
proof -
  have "inj (cmd E)" using assms(1) by (rule inj_cmd)
  then show ?thesis using assms(2)
    by (simp add: inj_eq handleCommand_def Let_def clearOneCounter_def clearCounters_def
        sendOK_def sendResponse_def)
qed

theorem clear_stats_ignores_parameter_witness:
  "distinct (command_codes sample_platform)
   \<and> command (zeroPacket\<lparr>command := 6\<rparr>) = cmd sample_platform COMMAND_CLEAR_STATS
   \<and> handleCommand sample_platform (quiet PACKET_OK zeroPacket)
        (zeroPacket\<lparr>command := 6, params := (\<lambda>k. 0)(0 := 77)\<rparr>)
        (boot_state\<lparr>leftForwardTicks := 3, rightRevs := 9\<rparr>) =
      boot_state\<lparr>trace := [Sent (okPacket sample_platform)]\<rparr>"
  using clear_stats_ignores_parameter [of sample_platform "zeroPacket\<lparr>command := 6\<rparr>"
      "quiet PACKET_OK zeroPacket" 77 "boot_state\<lparr>leftForwardTicks := 3, rightRevs := 9\<rparr>"]
  by (simp add: command_codes_def sample_platform_def zeroPacket_def boot_state_def)

text \<open>
  C10. \<^verbatim>\<open>handlePacket\<close> on a packet whose type is not COMMAND (HELLO, RESPONSE, ERROR,
  MESSAGE, or any other byte) returns the state as it was: no packet is sent and no
  counter, direction or target changes.
\<close>

theorem non_command_packets_are_dropped:
  assumes "packetType p \<noteq> ptype E PACKET_TYPE_COMMAND"
  shows "handlePacket E i p s = s"
  using assms by (simp add: handlePacket_def Let_def)

theorem non_command_packets_are_dropped_witness:
  "packetType (zeroPacket\<lparr>packetType := 4\<rparr>) \<noteq> ptype sample_platform PACKET_TYPE_COMMAND
   \<and> handlePacket sample_platform (quiet PACKET_OK (zeroPacket\<lparr>packetType := 4\<rparr>))
        (zeroPacket\<lparr>packetType := 4\<rparr>) boot_state = boot_state"
  using non_command_packets_are_dropped [of "zeroPacket\<lparr>packetType := 4\<rparr>" sample_platform
      "quiet PACKET_OK (zeroPacket\<lparr>packetType := 4\<rparr>)" boot_state]
  by (simp add: sample_platform_def zeroPacket_def)

subsection \<open>Motion targets\<close>



subsection \<open>Handshake and session\<close>

text \<open>
  C4. On input that holds no decoded HELLO, \<^verbatim>\<open>waitForHello\<close> does not leave its loop.
  When a decoded HELLO \<open>h\<close> follows frames \<open>pre\<close> none of which is one, the loop is left
  at \<open>h\<close> with the rest of the input unread, and what it has sent is: for each frame of
  \<open>pre\<close> in order, an ERROR packet with code \<open>RESP_BAD_RESPONSE\<close> for a decoded packet,
  with code \<open>RESP_BAD_PACKET\<close> for a frame that failed to decode, with code
  \<open>RESP_BAD_CHECKSUM\<close> for a checksum failure, nothing for an incomplete read; then one
  RESPONSE packet with code \<open>RESP_OK\<close>. Exactly one of the packets sent is a RESPONSE
  packet with code \<open>RESP_OK\<close>.
\<close>

theorem handshake_completes:
  assumes "\<forall>i \<in> set pre. \<not> decoded_hello E i"
    and "decoded_hello E h"
    and "ptype E PACKET_TYPE_ERROR \<noteq> ptype E PACKET_TYPE_RESPONSE"
  shows "fst (waitForHello E pre s) = False
    \<and> waitForHello E (pre @ h # rest) s =
        (True,
         s\<lparr>trace := trace s @
            concat (map (\<lambda>i. case result i of
                  PACKET_OK \<Rightarrow>
                    [Sent ((uninit E)\<lparr>packetType := ptype E PACKET_TYPE_ERROR,
                                      command := resp E RESP_BAD_RESPONSE\<rparr>)]
                | PACKET_BAD \<Rightarrow>
                    [Sent ((uninit E)\<lparr>packetType := ptype E PACKET_TYPE_ERROR,
                                      command := resp E RESP_BAD_PACKET\<rparr>)]
                | PACKET_CHECKSUM_BAD \<Rightarrow>
                    [Sent ((uninit E)\<lparr>packetType := ptype E PACKET_TYPE_ERROR,
                                      command := resp E RESP_BAD_CHECKSUM\<rparr>)]
                | PACKET_INCOMPLETE \<Rightarrow> []) pre)
            @ [Sent ((uninit E)\<lparr>packetType := ptype E PACKET_TYPE_RESPONSE,
                                command := resp E RESP_OK\<rparr>)]\<rparr>,
         rest)
    \<and> length (filter (\<lambda>e. case e of
             Sent p \<Rightarrow> packetType p = ptype E PACKET_TYPE_RESPONSE \<and> command p = resp E RESP_OK
           | _ \<Rightarrow> False)
         (concat (map (\<lambda>i. case result i of
                  PACKET_OK \<Rightarrow>
                    [Sent ((uninit E)\<lparr>packetType := ptype E PACKET_TYPE_ERROR,
                                      command := resp E RESP_BAD_RESPONSE\<rparr>)]
                | PACKET_BAD \<Rightarrow>
                    [Sent ((uninit E)\<lparr>packetType := ptype E PACKET_TYPE_ERROR,
                                      command := resp E RESP_BAD_PACKET\<rparr>)]
                | PACKET_CHECKSUM_BAD \<Rightarrow>
                    [Sent ((uninit E)\<lparr>packetType := ptype E PACKET_TYPE_ERROR,
                                      command := resp E RESP_BAD_CHECKSUM\<rparr>)]
                | PACKET_INCOMPLETE \<Rightarrow> []) pre)
          @ [Sent ((uninit E)\<lparr>packetType := ptype E PACKET_TYPE_RESPONSE,
                              command := resp E RESP_OK\<rparr>)])) = 1"
proof -
  have a: "fst (waitForHello E pre s) = False"
    using waitForHello_prefix [OF assms(1), of "[]" s] by simp
  have b: "waitForHello E (h # rest) t = (True, sendOK E t, rest)" for t
    using assms(2) by (simp add: decoded_hello_def)
  show ?thesis
    using a count_refusals [OF assms(3), of pre]
    by (simp add: waitForHello_prefix [OF assms(1)] b sendOK_def sendResponse_def okPacket_def
        del: waitForHello.simps)
qed

theorem handshake_completes_witness:
  "\<not> decoded_hello sample_platform (quiet PACKET_BAD zeroPacket)
   \<and> \<not> decoded_hello sample_platform (quiet PACKET_CHECKSUM_BAD zeroPacket)
   \<and> \<not> decoded_hello sample_platform (quiet PACKET_INCOMPLETE zeroPacket)
   \<and> \<not> decoded_hello sample_platform (quiet PACKET_OK (sample_command COMMAND_STOP 0 0))
   \<and> decoded_hello sample_platform (quiet PACKET_OK sample_hello)
   \<and> waitForHello sample_platform
        [quiet PACKET_BAD zeroPacket, quiet PACKET_CHECKSUM_BAD zeroPacket,
         quiet PACKET_INCOMPLETE zeroPacket,
         quiet PACKET_OK (sample_command COMMAND_STOP 0 0),
         quiet PACKET_OK sample_hello,
         quiet PACKET_OK (sample_command COMMAND_STOP 0 0)] boot_state =
       (True,
        boot_state\<lparr>trace :=
          [Sent \<lparr>packetType = 2, command = 4, params = (\<lambda>k. 0)\<rparr>,
           Sent \<lparr>packetType = 2, command = 5, params = (\<lambda>k. 0)\<rparr>,
           Sent \<lparr>packetType = 2, command = 7, params = (\<lambda>k. 0)\<rparr>,
           Sent \<lparr>packetType = 1, command = 0, params = (\<lambda>k. 0)\<rparr>]\<rparr>,
        [quiet PACKET_OK (sample_command COMMAND_STOP 0 0)])"
  using handshake_completes [of
      "[quiet PACKET_BAD zeroPacket, quiet PACKET_CHECKSUM_BAD zeroPacket,
        quiet PACKET_INCOMPLETE zeroPacket,
        quiet PACKET_OK (sample_command COMMAND_STOP 0 0)]"
      sample_platform "quiet PACKET_OK sample_hello" boot_state
      "[quiet PACKET_OK (sample_command COMMAND_STOP 0 0)]"]
  by (simp add: decoded_hello_def quiet_def sample_command_def sample_hello_def
      sample_platform_def zeroPacket_def boot_state_def del: waitForHello.simps)

text \<open>
  C1 as stated fails. A session whose whole input is one decoded COMMAND packet (forward, 5
  cm at power 50) and no HELLO: \<^verbatim>\<open>waitForHello\<close> would not leave its loop on this input,
  and yet the command is acknowledged and the motors are started.
\<close>

theorem command_runs_without_hello:
  "fst (waitForHello sample_platform
          [quiet PACKET_OK (sample_command COMMAND_FORWARD 5 50)] boot_state) = False
   \<and> trace (device_main sample_platform boot_state
          [quiet PACKET_OK (sample_command COMMAND_FORWARD 5 50)]) =
       [ServoWrite 3 10, ServoWrite 1 0, ServoWrite 2 60,
        Sent (okPacket sample_platform), Move 50 FORWARD]"
  by (simp add: device_main_def loop_def check_targets_def handlePacket_def handleCommand_def
      forward_def move_def sendOK_def sendResponse_def sendBadResponse_def okPacket_def
      setup_device_def initializeState_def clearCounters_def setupClaw_def servo_write_def
      ulong_of_float_def quiet_def sample_command_def sample_platform_def zeroPacket_def
      boot_state_def Let_def)

text \<open>
  C1, amended. \<^verbatim>\<open>setup()\<close> sends nothing and runs no handshake, and every pass of
  \<^verbatim>\<open>loop()\<close> that decodes a COMMAND packet hands it to \<^verbatim>\<open>handleCommand\<close> in that
  pass, whatever was received before (with or without a HELLO).
\<close>

theorem command_dispatch_needs_no_hello:
  assumes "result i = PACKET_OK"
    and "packetType (packet i) = ptype E PACKET_TYPE_COMMAND"
  shows "device_main E boot (ins @ [i]) =
           check_targets (handleCommand E i (packet i) (device_main E boot ins))
    \<and> trace (device_main E boot []) =
        trace boot @ [ServoWrite 3 10, ServoWrite 1 0, ServoWrite 2 60]"
  using assms
  by (simp add: device_main_def loop_def handlePacket_def Let_def setup_device_def
      initializeState_def clearCounters_def setupClaw_def servo_write_def)

theorem command_dispatch_needs_no_hello_witness:
  "result (quiet PACKET_OK (sample_command COMMAND_STOP 0 0)) = PACKET_OK
   \<and> packetType (packet (quiet PACKET_OK (sample_command COMMAND_STOP 0 0))) =
       ptype sample_platform PACKET_TYPE_COMMAND
   \<and> trace (device_main sample_platform boot_state
          [quiet PACKET_OK (sample_command COMMAND_STOP 0 0)]) =
       [ServoWrite 3 10, ServoWrite 1 0, ServoWrite 2 60,
        Sent (okPacket sample_platform), Move 0 STOP]"
  using command_dispatch_needs_no_hello [of "quiet PACKET_OK (sample_command COMMAND_STOP 0 0)"
      sample_platform boot_state "[]"]
  by (simp add: device_main_def setup_device_def initializeState_def clearCounters_def
      setupClaw_def servo_write_def check_targets_def handleCommand_def stop_def
      move_def sendOK_def sendResponse_def okPacket_def
      quiet_def sample_command_def sample_platform_def zeroPacket_def
      boot_state_def Let_def)

subsection \<open>Telemetry\<close>

text \<open>
  C5. \<^verbatim>\<open>sendStatus\<close> sends one RESPONSE packet with code \<open>RESP_STATUS\<close> whose slots 0 to
  9 hold, in this order: left forward, right forward, left reverse, right reverse ticks,
  left forward, right forward, left reverse, right reverse turn ticks, forward distance,
  reverse distance. When the bytes from index 1 of the console's receive buffer are the
  sixteen slots of that packet, \<^verbatim>\<open>handleStatus\<close> prints the same ten counters under the
  same ten names in the same order.
\<close>

theorem status_order_agrees:
  assumes "\<forall>k < 16. [buffer (1 + 4 * k), buffer (2 + 4 * k), buffer (3 + 4 * k), buffer (4 + 4 * k)]
             = le32 (params (statusPacket E s) k)"
  shows "trace (sendStatus E s) = trace s @ [Sent (statusPacket E s)]
    \<and> packetType (statusPacket E s) = ptype E PACKET_TYPE_RESPONSE
    \<and> command (statusPacket E s) = resp E RESP_STATUS
    \<and> map (params (statusPacket E s)) [0, 1, 2, 3, 4, 5, 6, 7, 8, 9] =
        [leftForwardTicks s, rightForwardTicks s, leftReverseTicks s, rightReverseTicks s,
         leftForwardTicksTurns s, rightForwardTicksTurns s,
         leftReverseTicksTurns s, rightReverseTicksTurns s,
         forwardDist s, reverseDist s]
    \<and> handleStatus buffer =
        [(''Left Forward Ticks'', sint (leftForwardTicks s)),
         (''Right Forward Ticks'', sint (rightForwardTicks s)),
         (''Left Reverse Ticks'', sint (leftReverseTicks s)),
         (''Right Reverse Ticks'', sint (rightReverseTicks s)),
         (''Left Forward Ticks Turns'', sint (leftForwardTicksTurns s)),
         (''Right Forward Ticks Turns'', sint (rightForwardTicksTurns s)),
         (''Left Reverse Ticks Turns'', sint (leftReverseTicksTurns s)),
         (''Right Reverse Ticks Turns'', sint (rightReverseTicksTurns s)),
         (''Forward Distance'', sint (forwardDist s)),
         (''Reverse Distance'', sint (reverseDist s))]"
proof -
  have slot: "int32_at buffer k = params (statusPacket E s) k" if "k < 16" for k
    using assms that by (intro int32_at_slot) blast
  have sent: "map (params (statusPacket E s)) [0, 1, 2, 3, 4, 5, 6, 7, 8, 9] =
        [leftForwardTicks s, rightForwardTicks s, leftReverseTicks s, rightReverseTicks s,
         leftForwardTicksTurns s, rightForwardTicksTurns s,
         leftReverseTicksTurns s, rightReverseTicksTurns s,
         forwardDist s, reverseDist s]"
    by (simp add: statusPacket_def)
  have read: "map (int32_at buffer) [0, 1, 2, 3, 4, 5, 6, 7, 8, 9] =
      map (params (statusPacket E s)) [0, 1, 2, 3, 4, 5, 6, 7, 8, 9]"
    by (simp add: slot)
  have "handleStatus buffer =
      map2 (\<lambda>l v. (l, sint v))
        [''Left Forward Ticks'', ''Right Forward Ticks'', ''Left Reverse Ticks'',
         ''Right Reverse Ticks'', ''Left Forward Ticks Turns'', ''Right Forward Ticks Turns'',
         ''Left Reverse Ticks Turns'', ''Right Reverse Ticks Turns'', ''Forward Distance'',
         ''Reverse Distance'']
        (map (int32_at buffer) [0, 1, 2, 3, 4, 5, 6, 7, 8, 9])"
    by (simp add: handleStatus_def Let_def)
  then have "handleStatus buffer =
      map2 (\<lambda>l v. (l, sint v))
        [''Left Forward Ticks'', ''Right Forward Ticks'', ''Left Reverse Ticks'',
         ''Right Reverse Ticks'', ''Left Forward Ticks Turns'', ''Right Forward Ticks Turns'',
         ''Left Reverse Ticks Turns'', ''Right Reverse Ticks Turns'', ''Forward Distance'',
         ''Reverse Distance'']
        [leftForwardTicks s, rightForwardTicks s, leftReverseTicks s, rightReverseTicks s,
         leftForwardTicksTurns s, rightForwardTicksTurns s,
         leftReverseTicksTurns s, rightReverseTicksTurns s,
         forwardDist s, reverseDist s]"
    unfolding read sent .
  then have shown: "handleStatus buffer =
        [(''Left Forward Ticks'', sint (leftForwardTicks s)),
         (''Right Forward Ticks'', sint (rightForwardTicks s)),
         (''Left Reverse Ticks'', sint (leftReverseTicks s)),
         (''Right Reverse Ticks'', sint (rightReverseTicks s)),
         (''Left Forward Ticks Turns'', sint (leftForwardTicksTurns s)),
         (''Right Forward Ticks Turns'', sint (rightForwardTicksTurns s)),
         (''Left Reverse Ticks Turns'', sint (leftReverseTicksTurns s)),
         (''Right Reverse Ticks Turns'', sint (rightReverseTicksTurns s)),
         (''Forward Distance'', sint (forwardDist s)),
         (''Reverse Distance'', sint (reverseDist s))]"
    by simp
  have first: "trace (sendStatus E s) = trace s @ [Sent (statusPacket E s)]"
    by (simp add: sendStatus_def sendResponse_def)
  have kind: "packetType (statusPacket E s) = ptype E PACKET_TYPE_RESPONSE"
    "command (statusPacket E s) = resp E RESP_STATUS"
    by (simp_all add: statusPacket_def)
  from first kind sent shown show ?thesis by blast
qed

theorem status_order_agrees_witness:
  "handleStatus (wire_image 1 (statusPacket sample_platform counting)) =
     [(''Left Forward Ticks'', 1), (''Right Forward Ticks'', 2),
      (''Left Reverse Ticks'', 3), (''Right Reverse Ticks'', 4),
      (''Left Forward Ticks Turns'', 5), (''Right Forward Ticks Turns'', 6),
      (''Left Reverse Ticks Turns'', 7), (''Right Reverse Ticks Turns'', 8),
      (''Forward Distance'', 9), (''Reverse Distance'', 10)]"
proof -
  have image: "\<forall>k < 16.
      [wire_image 1 (statusPacket sample_platform counting) (1 + 4 * k),
       wire_image 1 (statusPacket sample_platform counting) (2 + 4 * k),
       wire_image 1 (statusPacket sample_platform counting) (3 + 4 * k),
       wire_image 1 (statusPacket sample_platform counting) (4 + 4 * k)]
      = le32 (params (statusPacket sample_platform counting) k)"
    using wire_image_slot by blast
  from status_order_agrees [OF image] show ?thesis
    by (simp add: counting_def boot_state_def)
qed

subsection \<open>The keyboard thread\<close>

text \<open>
  C2 as stated fails. After the quit key the thread ends having sent nothing, but
  \<^verbatim>\<open>networkActive\<close> is still set: the thread calls \<^verbatim>\<open>stopClient()\<close> and never assigns the
  flag.
\<close>

theorem quit_leaves_flag_set:
  "writerThread sample_host [pressed CHR ''q''] connected =
     \<lparr>networkActive = True,
      console = [Prompt, ExitingKeyboardThread, StopClient, ExitThread]\<rparr>"
  by (simp add: on_key_def pressed_def connected_def Let_def)

text \<open>
  What \<^verbatim>\<open>sendData\<close> asks \<^verbatim>\<open>sslWrite\<close> for, on a host with 8-byte pointers: 8 bytes of the
  10-byte buffer. The amended C2 below says nothing about this count.
\<close>

lemma sendData_asks_for_pointer_size:
  "sendData sample_host 8 (command_buffer sample_host (of_char CHR ''f'') 5 50) 10 connected =
     \<lparr>networkActive = True,
      console = [Sending 10, SslWrite [3, 102, 5, 0, 0, 0, 50, 0, 0, 0] 8]\<rparr>"
  by (simp add: sendData_def command_buffer_def le32_def sample_host_def connected_def Let_def)

text \<open>
  C2, amended. For each sending key the thread builds the 10-byte buffer
  (\<^verbatim>\<open>NET_COMMAND_PACKET\<close>, the command letter, the two parameters) with the defaults of the
  key: 5 and 50 for f, F, b, B; 90 and 100 for l, L, r, R; 0 and 0 for h, v (letter u),
  t (letter m), s, S, c, C, g, G. It announces 10 bytes and, exactly when the session flag is
  set, calls \<^verbatim>\<open>sslWrite\<close> on that buffer; the flag is then set iff it was set and the write
  returned a positive count. On q or Q the thread sends nothing, leaves the flag as it is,
  calls \<^verbatim>\<open>stopClient()\<close> and ends, reading no further key.
\<close>

theorem keyboard_relay:
  assumes "(ch, letter, p0, p1) \<in> set
      [(CHR ''f'', CHR ''f'', 5, 50), (CHR ''F'', CHR ''F'', 5, 50),
       (CHR ''b'', CHR ''b'', 5, 50), (CHR ''B'', CHR ''B'', 5, 50),
       (CHR ''l'', CHR ''l'', 90, 100), (CHR ''L'', CHR ''L'', 90, 100),
       (CHR ''r'', CHR ''r'', 90, 100), (CHR ''R'', CHR ''R'', 90, 100),
       (CHR ''h'', CHR ''h'', 0, 0), (CHR ''v'', CHR ''u'', 0, 0), (CHR ''t'', CHR ''m'', 0, 0),
       (CHR ''s'', CHR ''s'', 0, 0), (CHR ''S'', CHR ''S'', 0, 0),
       (CHR ''c'', CHR ''c'', 0, 0), (CHR ''C'', CHR ''C'', 0, 0),
       (CHR ''g'', CHR ''g'', 0, 0), (CHR ''G'', CHR ''G'', 0, 0)]"
    and "q = CHR ''q'' \<or> q = CHR ''Q''"
  shows "fst (on_key H \<lparr>key = ch, write_result = c\<rparr> s) = False
    \<and> (\<exists>n. console (snd (on_key H \<lparr>key = ch, write_result = c\<rparr> s)) =
          console s @ [Prompt, Sending 10] @
            (if networkActive s
             then [SslWrite ([net_command_packet H, of_char letter] @ le32 p0 @ le32 p1) n]
             else []))
    \<and> length ([net_command_packet H, of_char letter] @ le32 p0 @ le32 p1) = 10
    \<and> networkActive (snd (on_key H \<lparr>key = ch, write_result = c\<rparr> s)) =
        (networkActive s \<and> 0 < c)
    \<and> writerThread H (\<lparr>key = q, write_result = c\<rparr> # ks) s =
        s\<lparr>console := console s @ [Prompt, ExitingKeyboardThread, StopClient, ExitThread]\<rparr>"
proof -
  have len: "length ([net_command_packet H, of_char letter] @ le32 p0 @ le32 p1) = 10"
    by (simp add: le32_def)
  have quit: "writerThread H (\<lparr>key = q, write_result = c\<rparr> # ks) s =
        s\<lparr>console := console s @ [Prompt, ExitingKeyboardThread, StopClient, ExitThread]\<rparr>"
    using assms(2) by (elim disjE) (simp_all add: on_key_def Let_def)
  have step: "on_key H \<lparr>key = ch, write_result = c\<rparr> s =
      (False, sendData H c ([net_command_packet H, of_char letter] @ le32 p0 @ le32 p1) 10
         (s\<lparr>console := console s @ [Prompt]\<rparr>))"
    using bspec [OF on_key_table [of H c s, unfolded list_all_iff] assms(1)] by simp
  have cons: "\<exists>n. console (sendData H c b 10 (s\<lparr>console := console s @ [Prompt]\<rparr>)) =
      console s @ [Prompt, Sending 10] @ (if networkActive s then [SslWrite b n] else [])" for b
    by (simp add: sendData_def Let_def)
  have act: "networkActive (sendData H c b 10 (s\<lparr>console := console s @ [Prompt]\<rparr>)) =
      (networkActive s \<and> 0 < c)" for b
    by (simp add: sendData_def Let_def)
  show ?thesis
    unfolding step fst_conv snd_conv
    by (intro conjI refl cons act len quit)
qed

theorem keyboard_relay_witness:
  "writerThread sample_host [pressed CHR ''l'', pressed CHR ''Q'', pressed CHR ''f''] connected =
     \<lparr>networkActive = True,
      console = [Prompt, Sending 10, SslWrite [3, 108, 90, 0, 0, 0, 100, 0, 0, 0] 8,
                 Prompt, ExitingKeyboardThread, StopClient, ExitThread]\<rparr>"
  using keyboard_relay [of "CHR ''l''" "CHR ''l''" 90 100 "CHR ''Q''" sample_host 8 connected
      "[pressed CHR ''f'']"]
  by (simp add: on_key_def send_command_def command_buffer_def sendData_def le32_def
      DEFAULT_ANG_def TURNING_POWER_def pressed_def connected_def sample_host_def Let_def)

end
